theory Spec2Isabelle
  imports Complex_Main "HOL-Library.Log_Nat"
begin

section \<open>The fitness tracker of \<open>app.py\<close>\<close>

text \<open>
  \<open>app.py\<close> is one Streamlit script: it reads eleven sidebar widgets into module-level
  variables, computes five metrics from them, displays them, computes two goal-progress
  percentages, shows a reference dataset and, on request, writes a PDF report.

  Numbers. The sliders and number inputs are created with integer bounds, so the
  variables they fill are Python \<open>int\<close>s: they are \<open>int\<close> here. Every computed metric
  is a Python \<open>float\<close>, a double; a double is the \<open>real\<close> it stands for.

  The BMI is compared with the thresholds of the classification, where one rounding
  can change the branch, so it is computed as the machine computes it: every operation
  rounded to the nearest double (\<open>fl\<close> below). The workout intensity, the running
  speed and the two progress values are only displayed; they are the exact values of
  their formulas. The two progress lines are given a second time in double arithmetic,
  for the question whether progress grows strictly.

  Comparisons of a double with \<open>18.5\<close>, \<open>25\<close> and \<open>30\<close> are exact in Python
  (each constant is a double), so the classification functions lose nothing.
\<close>

subsection \<open>Sidebar inputs (lines 24--36)\<close>

record inputs =
  age :: int
  gender :: string
  height :: int
  weight :: int
  running_time :: int
  running_speed :: int
  distance :: int
  heart_rate :: int
  goal_calories :: int
  goal_steps :: int
  steps_taken :: int

text \<open>The ranges the widgets allow: the second and third argument of each call.\<close>

definition in_domain :: "inputs \<Rightarrow> bool" where
  "in_domain i =
     (10 \<le> age i \<and> age i \<le> 100 \<and>
      (gender i = ''Female'' \<or> gender i = ''Male'') \<and>
      100 \<le> height i \<and> height i \<le> 250 \<and>
      30 \<le> weight i \<and> weight i \<le> 150 \<and>
      0 \<le> running_time i \<and> running_time i \<le> 120 \<and>
      0 \<le> running_speed i \<and> running_speed i \<le> 40 \<and>
      0 \<le> distance i \<and> distance i \<le> 50 \<and>
      50 \<le> heart_rate i \<and> heart_rate i \<le> 200 \<and>
      0 \<le> goal_calories i \<and> goal_calories i \<le> 5000 \<and>
      0 \<le> goal_steps i \<and> goal_steps i \<le> 50000 \<and>
      0 \<le> steps_taken i \<and> steps_taken i \<le> 50000)"

subsection \<open>Exceptions as values\<close>

datatype error = ZeroDivisionError | IndexError | OSError

text \<open>
  Python's true division \<open>a / b\<close> raises \<open>ZeroDivisionError\<close> when \<open>b\<close> is zero.
  It is used wherever the source divides by a variable; a division by the literals
  \<open>100\<close> and \<open>60\<close> cannot raise and is written with \<open>/\<close> directly. \<open>truediv\<close> is
  the exact quotient.
\<close>

definition truediv :: "real \<Rightarrow> real \<Rightarrow> error + real" where
  "truediv a b = (if b = 0 then Inl ZeroDivisionError else Inr (a / b))"

subsection \<open>Double precision\<close>

text \<open>
  IEEE 754 binary64 with rounding to nearest, ties to even. \<open>round_even\<close> is the
  nearest integer, the even one of two equally near. \<open>binade a\<close> is the \<open>e\<close> with
  \<open>2 ^ e \<le> a < 2 ^ (e + 1)\<close> for a positive \<open>a\<close>. The exponent of a double is at
  least \<open>-1022\<close>: below \<open>2 ^ -1022\<close> the doubles keep the spacing \<open>2 ^ -1074\<close>.
  \<open>fl x\<close> is the double nearest to \<open>x\<close>: a multiple of the spacing at \<open>x\<close>, with
  at most 53 significant bits. Beyond the largest double, where Python raises
  \<open>OverflowError\<close> or yields \<open>inf\<close>, \<open>fl\<close> goes on rounding to 53 bits; nothing
  the widgets deliver comes near.
\<close>

definition round_even :: "real \<Rightarrow> int" where
  "round_even y =
     (let f = \<lfloor>y\<rfloor>; d = y - real_of_int f
      in if d < 1 / 2 then f
         else if 1 / 2 < d then f + 1
         else if even f then f else f + 1)"

definition binade :: "real \<Rightarrow> int" where
  "binade a = (if 1 \<le> a then bitlen \<lfloor>a\<rfloor> - 1 else - bitlen (\<lceil>1 / a\<rceil> - 1))"

definition exponent :: "real \<Rightarrow> int" where
  "exponent a = (if 0 < a then max (- 1022) (binade a) else - 1022)"

definition fl :: "real \<Rightarrow> real" where
  "fl x =
     (let u = 2 powi (exponent \<bar>x\<bar> - 52)
      in real_of_int (round_even (x / u)) * u)"

text \<open>
  The division of two floats, of a float by an integer or of two integers, as a double:
  the quotient of the two numbers, rounded once. (An integer of magnitude up to
  \<open>2 ^ 53\<close>, so every input, is a double as it stands.)
\<close>

definition float_truediv :: "real \<Rightarrow> real \<Rightarrow> error + real" where
  "float_truediv a b = (if b = 0 then Inl ZeroDivisionError else Inr (fl (a / b)))"

subsection \<open>Metric functions (lines 48--83)\<close>

text \<open>
  Lines 49--50 in double arithmetic: the quotient \<open>height / 100\<close>, its square and the
  final quotient are rounded one after the other. (\<open>**\<close> on a float calls the C
  library's \<open>pow\<close>; its result for a square is taken to be the nearest double.)
\<close>

definition calculate_bmi :: "inputs \<Rightarrow> error + real" where
  "calculate_bmi i =
     (let h_m = fl (real_of_int (height i) / 100)
      in float_truediv (real_of_int (weight i)) (fl (h_m ^ 2)))"

definition calculate_workout_intensity :: "inputs \<Rightarrow> error + real" where
  "calculate_workout_intensity i =
     (let max_heart_rate = 220 - age i
      in case truediv (real_of_int (heart_rate i)) (real_of_int max_heart_rate) of
           Inl e \<Rightarrow> Inl e
         | Inr q \<Rightarrow> Inr (q * 100))"

definition calculate_running_speed :: "inputs \<Rightarrow> error + real" where
  "calculate_running_speed i =
     (if running_time i > 0
      then truediv (real_of_int (distance i)) (real_of_int (running_time i) / 60)
      else Inr 0)"

definition classify_bmi :: "real \<Rightarrow> string" where
  "classify_bmi bmi =
     (if bmi < 18.5 then ''Underweight''
      else if 18.5 \<le> bmi \<and> bmi < 25 then ''Normal''
      else if 25 \<le> bmi \<and> bmi < 30 then ''Overweight''
      else ''Obese'')"

definition provide_suggestions :: "real \<Rightarrow> string" where
  "provide_suggestions bmi =
     (if bmi < 18.5 then ''Increase calorie intake and do strength training.''
      else if 18.5 \<le> bmi \<and> bmi < 25 then ''Maintain current routine. Keep up the good work!''
      else if 25 \<le> bmi \<and> bmi < 30 then ''Incorporate more cardio and balanced diet.''
      else ''Consult a healthcare provider for a tailored fitness plan.'')"

subsection \<open>The predictor (lines 41--46)\<close>

text \<open>
  The scaler and the regression model are pickled artifacts loaded at start (lines
  13--17), not code of the script: they are parameters of the model, together with
  everything else the script takes from outside. \<open>read_csv\<close> is \<open>None\<close> when
  \<open>pd.read_csv\<close> raises; \<open>pdf_output\<close> is the exception \<open>pdf.output\<close> raises, if
  any; \<open>now\<close> is the formatted clock reading; the two flags are what the two
  \<open>st.button\<close> calls return.
\<close>

type_synonym dataframe = "string \<rightharpoonup> real list"

record world =
  scaler_transform :: "int list list \<Rightarrow> real list list"
  calories_model_predict :: "real list list \<Rightarrow> real list"
  read_csv :: "dataframe option"
  compare_clicked :: bool
  report_clicked :: bool
  now :: string
  pdf_output :: "error option"

text \<open>The array built on lines 42--43: one row of eight integers.\<close>

definition input_data :: "inputs \<Rightarrow> int list list" where
  "input_data i =
     [[age i, (if gender i = ''Female'' then 0 else 1), height i, weight i,
       running_time i, running_speed i, distance i, heart_rate i]]"

text \<open>\<open>predict(...)[0]\<close> raises \<open>IndexError\<close> on an empty prediction.\<close>

definition predict_calories :: "world \<Rightarrow> inputs \<Rightarrow> error + real" where
  "predict_calories w i =
     (case calories_model_predict w (scaler_transform w (input_data i)) of
        [] \<Rightarrow> Inl IndexError
      | calories_burned # _ \<Rightarrow> Inr calories_burned)"

subsection \<open>Goal progress (lines 107--115)\<close>

definition calories_progress :: "real \<Rightarrow> inputs \<Rightarrow> error + real" where
  "calories_progress calories_burned i =
     (if goal_calories i > 0
      then (case truediv calories_burned (real_of_int (goal_calories i)) of
              Inl e \<Rightarrow> Inl e
            | Inr q \<Rightarrow> Inr (q * 100))
      else Inr 0)"

definition steps_progress :: "inputs \<Rightarrow> error + real" where
  "steps_progress i =
     (if goal_steps i > 0
      then (case truediv (real_of_int (steps_taken i)) (real_of_int (goal_steps i)) of
              Inl e \<Rightarrow> Inl e
            | Inr q \<Rightarrow> Inr (q * 100))
      else Inr 0)"

text \<open>
  The same two blocks with every operation rounded to the nearest double, as line 108
  and line 113 compute them: the quotient first, then the product with 100.
\<close>

definition calories_progress_f64 :: "real \<Rightarrow> inputs \<Rightarrow> error + real" where
  "calories_progress_f64 calories_burned i =
     (if goal_calories i > 0
      then (case float_truediv calories_burned (real_of_int (goal_calories i)) of
              Inl e \<Rightarrow> Inl e
            | Inr q \<Rightarrow> Inr (fl (q * 100)))
      else Inr 0)"

definition steps_progress_f64 :: "inputs \<Rightarrow> error + real" where
  "steps_progress_f64 i =
     (if goal_steps i > 0
      then (case float_truediv (real_of_int (steps_taken i)) (real_of_int (goal_steps i)) of
              Inl e \<Rightarrow> Inl e
            | Inr q \<Rightarrow> Inr (fl (q * 100)))
      else Inr 0)"

subsection \<open>The script, top to bottom\<close>

text \<open>
  What the main pane of the page shows is a list of events: the \<open>st\<close> calls of the
  script in their order and, when an exception ends the run, the box in which Streamlit
  displays that exception. The sidebar, with its two headers and eleven widgets, is
  where the inputs come from and has no events here. An f-string is kept as its parts:
  literal or interpolated text, a number formatted with \<open>:.2f\<close>, an integer formatted
  plainly.
\<close>

datatype part = Text string | Fixed2 real | Plain int

datatype event =
    Title string
  | Subheader string
  | Write "part list"
  | Warning string
  | Success string
  | Bar_chart "real list"
  | Exception_shown error

text \<open>The variables assigned on lines 90--95.\<close>

record metrics =
  calories_burned :: real
  bmi :: real
  intensity :: real
  speed :: real
  bmi_category :: string
  suggestion :: string

definition compute_metrics :: "world \<Rightarrow> inputs \<Rightarrow> error + metrics" where
  "compute_metrics w i =
     (case predict_calories w i of Inl e \<Rightarrow> Inl e | Inr c \<Rightarrow>
     (case calculate_bmi i of Inl e \<Rightarrow> Inl e | Inr b \<Rightarrow>
     (case calculate_workout_intensity i of Inl e \<Rightarrow> Inl e | Inr n \<Rightarrow>
     (case calculate_running_speed i of Inl e \<Rightarrow> Inl e | Inr s \<Rightarrow>
        Inr \<lparr>calories_burned = c, bmi = b, intensity = n, speed = s,
             bmi_category = classify_bmi b, suggestion = provide_suggestions b\<rparr>))))"

text \<open>Lines 97--102.\<close>

definition show_metrics :: "metrics \<Rightarrow> event list" where
  "show_metrics m =
     [Subheader ''Your Fitness Metrics'',
      Write [Text ''**Calories Burned:** '', Fixed2 (calories_burned m)],
      Write [Text ''**BMI:** '', Fixed2 (bmi m), Text '' ('', Text (bmi_category m), Text '')''],
      Write [Text ''**Workout Intensity:** '', Fixed2 (intensity m), Text ''%''],
      Write [Text ''**Running Speed:** '', Fixed2 (speed m), Text '' km/h''],
      Write [Text ''**Fitness Suggestion:** '', Text (suggestion m)]]"

text \<open>Lines 117--119.\<close>

definition show_progress :: "real \<Rightarrow> real \<Rightarrow> event list" where
  "show_progress cp sp =
     [Subheader ''Progress'',
      Write [Text ''**Calories Progress:** '', Fixed2 cp, Text ''%''],
      Write [Text ''**Steps Progress:** '', Fixed2 sp, Text ''%'']]"

text \<open>
  Lines 124--129. The bare \<open>except\<close> turns every failure into a warning; a missing
  column fails after the subheader is out.
\<close>

definition data_analysis :: "world \<Rightarrow> event list" where
  "data_analysis w =
     (case read_csv w of
        None \<Rightarrow> [Warning ''Dataset 'calories_burned_data.csv' not found for plotting.'']
      | Some df \<Rightarrow>
          Subheader ''Calories Burned Distribution'' #
          (case df ''Calories Burned'' of
             None \<Rightarrow> [Warning ''Dataset 'calories_burned_data.csv' not found for plotting.'']
           | Some col \<Rightarrow> [Bar_chart col]))"

text \<open>
  Lines 134--147. The four averages are computed before anything is shown, so an
  undefined \<open>df\<close> or a missing column leaves the warning alone. The mean of an empty
  column and a row of height zero are NaN and infinity in pandas; the reals have
  neither, and no property below looks at these values.
\<close>

definition series_mean :: "real list \<Rightarrow> real" where
  "series_mean xs = sum_list xs / real (length xs)"

definition compare_with_dataset :: "world \<Rightarrow> inputs \<Rightarrow> metrics \<Rightarrow> event list" where
  "compare_with_dataset w i m =
     (case read_csv w of
        None \<Rightarrow> [Warning ''Dataset not available for comparison.'']
      | Some df \<Rightarrow>
         (case (df ''Calories Burned'', df ''Weight(kg)'', df ''Height(cm)'',
                df ''Running Speed(km/h)'', df ''Average Heart Rate'') of
            (Some cb, Some wt, Some ht, Some rs, Some hr) \<Rightarrow>
              (let avg_calories_burned = series_mean cb;
                   avg_bmi = series_mean (map2 (\<lambda>x y. x / (y / 100) ^ 2) wt ht);
                   avg_running_speed = series_mean rs;
                   avg_heart_rate = series_mean hr
               in [Subheader ''Comparison with Dataset Averages'',
                   Write [Text ''**Your Calories Burned:** '', Fixed2 (calories_burned m),
                          Text '' | Dataset Avg: '', Fixed2 avg_calories_burned],
                   Write [Text ''**Your BMI:** '', Fixed2 (bmi m),
                          Text '' | Dataset Avg: '', Fixed2 avg_bmi],
                   Write [Text ''**Your Running Speed:** '', Fixed2 (speed m),
                          Text '' | Dataset Avg: '', Fixed2 avg_running_speed],
                   Write [Text ''**Your Heart Rate:** '', Fixed2 (real_of_int (heart_rate i)),
                          Text '' | Dataset Avg: '', Fixed2 avg_heart_rate]])
          | _ \<Rightarrow> [Warning ''Dataset not available for comparison.'']))"

text \<open>Lines 156--167: the cells of the PDF page, one per line.\<close>

definition report_cells :: "world \<Rightarrow> inputs \<Rightarrow> metrics \<Rightarrow> part list list" where
  "report_cells w i m =
     [[Text ''SMARTFIT AI - Fitness Report''],
      [Text ''Date: '', Text (now w)],
      [Text ''------------------------------''],
      [Text ''Age: '', Plain (age i)],
      [Text ''Gender: '', Text (gender i)],
      [Text ''Height: '', Plain (height i), Text '' cm''],
      [Text ''Weight: '', Plain (weight i), Text '' kg''],
      [Text ''Calories Burned: '', Fixed2 (calories_burned m)],
      [Text ''BMI: '', Fixed2 (bmi m), Text '' ('', Text (bmi_category m), Text '')''],
      [Text ''Workout Intensity: '', Fixed2 (intensity m), Text ''%''],
      [Text ''Running Speed: '', Fixed2 (speed m), Text '' km/h''],
      [Text ''Fitness Suggestion: '', Text (suggestion m)]]"

text \<open>
  One run of the script: what the page shows, the report written to
  \<open>fitness_report.pdf\<close> (if one was), and the exception that ended the run (if one
  did). Nothing outside the two dataset blocks is inside a \<open>try\<close>, so an exception
  ends the run where it is raised: what has been shown stays, and the exception is
  displayed below it.
\<close>

record run =
  events :: "event list"
  report_file :: "part list list option"
  raised :: "error option"

definition uncaught :: "event list \<Rightarrow> error \<Rightarrow> run" where
  "uncaught shown e =
     \<lparr>events = shown @ [Exception_shown e], report_file = None, raised = Some e\<rparr>"

text \<open>Lines 152--169, after the events \<open>shown\<close>.\<close>

definition generate_pdf_report :: "world \<Rightarrow> inputs \<Rightarrow> metrics \<Rightarrow> event list \<Rightarrow> run" where
  "generate_pdf_report w i m shown =
     (if report_clicked w
      then (case pdf_output w of
              Some e \<Rightarrow> uncaught shown e
            | None \<Rightarrow>
                \<lparr>events = shown @ [Success ''PDF report generated as fitness_report.pdf''],
                 report_file = Some (report_cells w i m), raised = None\<rparr>)
      else \<lparr>events = shown, report_file = None, raised = None\<rparr>)"

definition app :: "world \<Rightarrow> inputs \<Rightarrow> run" where
  "app w i =
     (let title = [Title ''SMARTFIT AI - Personal Fitness Tracker''] in
     (case compute_metrics w i of
        Inl e \<Rightarrow> uncaught title e
      | Inr m \<Rightarrow>
         (let shown = title @ show_metrics m in
         (case calories_progress (calories_burned m) i of
            Inl e \<Rightarrow> uncaught shown e
          | Inr cp \<Rightarrow>
             (case steps_progress i of
                Inl e \<Rightarrow> uncaught shown e
              | Inr sp \<Rightarrow>
                  generate_pdf_report w i m
                    (shown @ show_progress cp sp @ data_analysis w @
                     (if compare_clicked w then compare_with_dataset w i m else [])))))))"

subsection \<open>Sample inputs\<close>

text \<open>
  The default value of every widget (the last argument of each call on lines 24--36),
  and a world where the dataset is absent, the report is requested and \<open>pdf.output\<close>
  fails. Its stand-in predictor converts the row to floats and adds it up.
\<close>

definition default_inputs :: inputs where
  "default_inputs =
     \<lparr>age = 25, gender = ''Female'', height = 170, weight = 70,
      running_time = 30, running_speed = 10, distance = 5, heart_rate = 80,
      goal_calories = 500, goal_steps = 5000, steps_taken = 2000\<rparr>"

definition failing_write_world :: world where
  "failing_write_world =
     \<lparr>scaler_transform = map (map real_of_int),
      calories_model_predict = map sum_list,
      read_csv = None,
      compare_clicked = False,
      report_clicked = True,
      now = ''2026-01-01 00:00:00'',
      pdf_output = Some OSError\<rparr>"

subsection \<open>The advice table of the specification\<close>

text \<open>
  The specification describes the suggestion as a table from category to advisory
  string. This is that table; \<open>provide_suggestions\<close> above is the source's function,
  which branches on the BMI itself.
\<close>

definition suggestion_table :: "(string \<times> string) list" where
  "suggestion_table =
     [(''Underweight'', ''Increase calorie intake and do strength training.''),
      (''Normal'', ''Maintain current routine. Keep up the good work!''),
      (''Overweight'', ''Incorporate more cardio and balanced diet.''),
      (''Obese'', ''Consult a healthcare provider for a tailored fitness plan.'')]"

section \<open>Properties\<close>

subsection \<open>Rounding to the nearest double\<close>

lemma round_even_bounds:
  "\<lfloor>y\<rfloor> \<le> round_even y \<and> round_even y \<le> \<lfloor>y\<rfloor> + 1"
  by (simp add: round_even_def Let_def)

lemma round_even_mono:
  assumes "x \<le> y"
  shows "round_even x \<le> round_even y"
proof (cases "\<lfloor>x\<rfloor> = \<lfloor>y\<rfloor>")
  case True
  with assms show ?thesis
    by (auto simp add: round_even_def Let_def)
next
  case False
  with assms have "\<lfloor>x\<rfloor> < \<lfloor>y\<rfloor>"
    using floor_mono [of x y] by linarith
  then have "round_even x \<le> \<lfloor>y\<rfloor>"
    using round_even_bounds [of x] by linarith
  then show ?thesis
    using round_even_bounds [of y] by linarith
qed

lemma round_even_error:
  "\<bar>real_of_int (round_even y) - y\<bar> \<le> 1 / 2"
proof -
  have "real_of_int \<lfloor>y\<rfloor> \<le> y" "y < real_of_int \<lfloor>y\<rfloor> + 1"
    by linarith+
  then show ?thesis
    by (auto simp add: round_even_def Let_def)
qed

lemma round_even_of_int [simp]: "round_even (real_of_int n) = n"
  by (simp add: round_even_def)

lemma round_even_minus: "round_even (- y) = - round_even y"
proof (cases "y = real_of_int \<lfloor>y\<rfloor>")
  case True
  then obtain n where n: "y = real_of_int n" ..
  then have "- y = real_of_int (- n)" by simp
  then have "round_even (- y) = - n" by (simp only: round_even_of_int)
  with n show ?thesis by simp
next
  case False
  have "\<lceil>y\<rceil> = \<lfloor>y\<rfloor> + 1"
    using False by (simp add: ceiling_altdef)
  then have f: "\<lfloor>- y\<rfloor> = - \<lfloor>y\<rfloor> - 1"
    by (simp add: ceiling_def)
  show ?thesis
    using False by (auto simp add: round_even_def Let_def f)
qed

text \<open>\<open>binade\<close> finds the power of two below a positive number.\<close>

lemma binade_bounds:
  assumes "0 < a"
  shows "2 powi binade a \<le> a \<and> a < 2 powi (binade a + 1)"
proof (cases "1 \<le> a")
  case True
  let ?n = "\<lfloor>a\<rfloor>"
  from True have n: "0 < ?n" by simp
  from bitlen_bounds [OF n]
  have b: "2 ^ nat (bitlen ?n - 1) \<le> ?n" "?n < 2 ^ nat (bitlen ?n)" by simp_all
  from n have p: "1 \<le> bitlen ?n"
    by (simp add: bitlen_alt_def)
  have "(2 :: real) powi (bitlen ?n - 1) = 2 ^ nat (bitlen ?n - 1)"
    using p by (simp add: power_int_nonneg_exp)
  also have "\<dots> \<le> real_of_int ?n"
    using b(1) by (metis of_int_le_iff of_int_numeral of_int_power)
  also have "\<dots> \<le> a" by simp
  finally have lo: "2 powi (bitlen ?n - 1) \<le> a" .
  have "?n + 1 \<le> 2 ^ nat (bitlen ?n)" using b(2) by simp
  then have "real_of_int (?n + 1) \<le> 2 ^ nat (bitlen ?n)"
    by (metis of_int_le_iff of_int_numeral of_int_power)
  moreover have "a < real_of_int (?n + 1)" by simp
  ultimately have "a < 2 ^ nat (bitlen ?n)" by linarith
  also have "\<dots> = (2 :: real) powi (bitlen ?n)"
    using p by (simp add: power_int_nonneg_exp)
  finally have hi: "a < 2 powi (bitlen ?n)" .
  from lo hi True show ?thesis by (simp add: binade_def)
next
  case False
  let ?c = "\<lceil>1 / a\<rceil>"
  let ?k = "bitlen (?c - 1)"
  from False assms have y: "1 < 1 / a" by simp
  then have c: "0 < ?c - 1" by linarith
  from bitlen_bounds [OF c]
  have b: "2 ^ nat (?k - 1) \<le> ?c - 1" "?c - 1 < 2 ^ nat ?k" by simp_all
  from c have p: "1 \<le> ?k" by (simp add: bitlen_alt_def)
  have "?c \<le> 2 ^ nat ?k" using b(2) by simp
  then have "real_of_int ?c \<le> 2 ^ nat ?k"
    by (metis of_int_le_iff of_int_numeral of_int_power)
  moreover have "1 / a \<le> real_of_int ?c" by simp
  ultimately have "1 / a \<le> 2 ^ nat ?k" by linarith
  then have "1 \<le> a * 2 ^ nat ?k"
    using assms by (simp add: field_simps)
  then have "1 / 2 ^ nat ?k \<le> a"
    by (simp add: field_simps)
  moreover have "(2 :: real) powi (- ?k) = 1 / 2 ^ nat ?k"
    using p by (simp add: power_int_def field_simps)
  ultimately have lo: "2 powi (- ?k) \<le> a" by simp
  have "real_of_int (2 ^ nat (?k - 1)) \<le> real_of_int (?c - 1)"
    using b(1) by linarith
  then have "(2 :: real) ^ nat (?k - 1) \<le> real_of_int ?c - 1" by simp
  moreover have "real_of_int ?c - 1 < 1 / a" by linarith
  ultimately have "(2 :: real) ^ nat (?k - 1) < 1 / a" by linarith
  then have "a * 2 ^ nat (?k - 1) < 1"
    using assms by (simp add: field_simps)
  then have "a < 1 / 2 ^ nat (?k - 1)"
    by (simp add: field_simps)
  moreover have "(2 :: real) powi (- ?k + 1) = 1 / 2 ^ nat (?k - 1)"
  proof (cases "?k = 1")
    case True
    then show ?thesis by simp
  next
    case False
    with p have "- ?k + 1 < 0" by simp
    then show ?thesis
      by (simp add: power_int_def field_simps)
  qed
  ultimately have hi: "a < 2 powi (- ?k + 1)" by simp
  from lo hi False show ?thesis by (simp add: binade_def)
qed

lemma exponent_ge: "- 1022 \<le> exponent a"
  by (simp add: exponent_def)

lemma exponent_upper:
  assumes "0 \<le> a"
  shows "a < 2 powi (exponent a + 1)"
proof (cases "0 < a")
  case True
  have "a < 2 powi (binade a + 1)"
    using binade_bounds [OF True] by simp
  also have "\<dots> \<le> 2 powi (exponent a + 1)"
    using True by (intro power_int_increasing) (simp_all add: exponent_def)
  finally show ?thesis .
next
  case False
  with assms have "a = 0" by simp
  then show ?thesis by simp
qed

lemma exponent_lower:
  assumes "0 < a" and "- 1022 < exponent a"
  shows "2 powi exponent a \<le> a"
proof -
  from assms have "exponent a = binade a"
    by (simp add: exponent_def max_def split: if_splits)
  then show ?thesis
    using binade_bounds [OF assms(1)] by simp
qed

lemma exponent_eqI:
  assumes "2 powi k \<le> a" and "a < 2 powi (k + 1)" and "- 1022 \<le> k"
  shows "exponent a = k"
proof -
  have pos: "0 < a"
    using assms(1) by (rule less_le_trans [rotated]) simp
  note b = binade_bounds [OF pos]
  have "binade a = k"
  proof (rule ccontr)
    assume "binade a \<noteq> k"
    then consider "binade a + 1 \<le> k" | "k + 1 \<le> binade a" by linarith
    then show False
    proof cases
      case 1
      then have "(2 :: real) powi (binade a + 1) \<le> 2 powi k"
        by (intro power_int_increasing) simp_all
      with b assms(1) show False by linarith
    next
      case 2
      then have "(2 :: real) powi (k + 1) \<le> 2 powi binade a"
        by (intro power_int_increasing) simp_all
      with b assms(2) show False by linarith
    qed
  qed
  then show ?thesis
    using pos assms(3) by (simp add: exponent_def)
qed

lemma exponent_normal:
  assumes "2 powi (- 1022) \<le> a"
  shows "2 powi exponent a \<le> a"
proof -
  have pos: "0 < a"
    using assms by (rule less_le_trans [rotated]) simp
  have "- 1022 \<le> binade a"
  proof (rule ccontr)
    assume "\<not> - 1022 \<le> binade a"
    then have "binade a + 1 \<le> - 1022" by simp
    then have "(2 :: real) powi (binade a + 1) \<le> 2 powi (- 1022)"
      by (intro power_int_increasing) simp_all
    with binade_bounds [OF pos] assms show False by linarith
  qed
  then have "exponent a = binade a"
    using pos by (simp add: exponent_def)
  then show ?thesis
    using binade_bounds [OF pos] by simp
qed

lemma exponent_mono:
  assumes "0 \<le> x" and "x \<le> y"
  shows "exponent x \<le> exponent y"
proof (rule ccontr)
  assume "\<not> exponent x \<le> exponent y"
  then have lt: "exponent y + 1 \<le> exponent x" by simp
  with exponent_ge [of y] have "- 1022 < exponent x" by linarith
  moreover from this have "0 < x"
    using assms(1) by (cases "x = 0") (simp_all add: exponent_def)
  ultimately have "2 powi exponent x \<le> x"
    by (intro exponent_lower)
  moreover have "y < 2 powi (exponent y + 1)"
    using assms by (intro exponent_upper) simp
  moreover have "(2 :: real) powi (exponent y + 1) \<le> 2 powi exponent x"
    using lt by (intro power_int_increasing) simp_all
  ultimately show False using assms(2) by linarith
qed

text \<open>\<open>fl\<close> is odd and monotone, and off by at most half a unit in the last place.\<close>

lemma fl_zero [simp]: "fl 0 = 0"
  by (simp add: fl_def round_even_def)

lemma fl_minus: "fl (- x) = - fl x"
  by (simp add: fl_def Let_def round_even_minus)

lemma fl_mono_nonneg:
  assumes "0 \<le> x" and "x \<le> y"
  shows "fl x \<le> fl y"
proof -
  let ?ex = "exponent x" and ?ey = "exponent y"
  let ?ux = "(2 :: real) powi (?ex - 52)" and ?uy = "(2 :: real) powi (?ey - 52)"
  from assms have y0: "0 \<le> y" by simp
  have fx: "fl x = real_of_int (round_even (x / ?ux)) * ?ux"
    using assms(1) by (simp add: fl_def Let_def)
  have fy: "fl y = real_of_int (round_even (y / ?uy)) * ?uy"
    using y0 by (simp add: fl_def Let_def)
  have le: "?ex \<le> ?ey"
    using assms by (rule exponent_mono)
  show ?thesis
  proof (cases "?ex = ?ey")
    case True
    have "x / ?ux \<le> y / ?ux"
      using assms(2) by (simp add: divide_right_mono)
    then have "round_even (x / ?ux) \<le> round_even (y / ?ux)"
      by (rule round_even_mono)
    then have "real_of_int (round_even (x / ?ux)) * ?ux \<le> real_of_int (round_even (y / ?ux)) * ?ux"
      by (simp add: mult_right_mono)
    with fx fy True show ?thesis by simp
  next
    case False
    with le have lt: "?ex + 1 \<le> ?ey" by simp
    have "x < 2 powi (?ex + 1)"
      using assms(1) by (rule exponent_upper)
    then have "x / ?ux \<le> 2 powi (?ex + 1) / ?ux"
      by (simp add: divide_right_mono)
    also have "(2 :: real) powi (?ex + 1) / ?ux = 2 powi 53"
      by (simp add: power_int_diff [symmetric])
    also have "\<dots> = real_of_int (2 ^ 53)"
      by (simp add: power_int_def)
    finally have "round_even (x / ?ux) \<le> round_even (real_of_int (2 ^ 53))"
      by (rule round_even_mono)
    then have "round_even (x / ?ux) \<le> 2 ^ 53"
      by (simp only: round_even_of_int)
    then have "real_of_int (round_even (x / ?ux)) \<le> real_of_int (2 ^ 53)"
      by (simp only: of_int_le_iff)
    also have "real_of_int (2 ^ 53) = 2 powi 53"
      by (simp add: power_int_def)
    finally have "real_of_int (round_even (x / ?ux)) \<le> 2 powi 53" .
    then have "fl x \<le> 2 powi 53 * ?ux"
      unfolding fx by (simp add: mult_right_mono)
    also have "\<dots> = 2 powi (?ex + 1)"
      using power_int_add [of "2 :: real" 53 "?ex - 52"] by (simp add: add.commute)
    also have "\<dots> \<le> 2 powi ?ey"
      using lt by (intro power_int_increasing) simp_all
    finally have a: "fl x \<le> 2 powi ?ey" .
    from lt exponent_ge [of x] have big: "- 1022 < ?ey" by linarith
    then have ypos: "0 < y"
      using y0 by (cases "y = 0") (simp_all add: exponent_def)
    have "2 powi ?ey \<le> y"
      using ypos big by (rule exponent_lower)
    then have "2 powi ?ey / ?uy \<le> y / ?uy"
      by (simp add: divide_right_mono)
    moreover have "(2 :: real) powi ?ey / ?uy = 2 powi 52"
      using power_int_diff [of "2 :: real" ?ey "?ey - 52"] by simp
    moreover have "(2 :: real) powi 52 = real_of_int (2 ^ 52)"
      by (simp add: power_int_def)
    ultimately have "round_even (real_of_int (2 ^ 52)) \<le> round_even (y / ?uy)"
      by (intro round_even_mono) simp
    then have "2 ^ 52 \<le> round_even (y / ?uy)"
      by (simp only: round_even_of_int)
    then have "real_of_int (2 ^ 52) \<le> real_of_int (round_even (y / ?uy))"
      by (simp only: of_int_le_iff)
    moreover have "real_of_int (2 ^ 52) = 2 powi 52"
      by (simp add: power_int_def)
    ultimately have "2 powi 52 \<le> real_of_int (round_even (y / ?uy))"
      by simp
    then have "2 powi 52 * ?uy \<le> fl y"
      unfolding fy by (simp add: mult_right_mono)
    moreover have "(2 :: real) powi 52 * ?uy = 2 powi ?ey"
      using power_int_add [of "2 :: real" 52 "?ey - 52"] by simp
    ultimately have "2 powi ?ey \<le> fl y" by simp
    with a show ?thesis by linarith
  qed
qed

lemma fl_nonneg: "0 \<le> x \<Longrightarrow> 0 \<le> fl x"
  using fl_mono_nonneg [of 0 x] by simp

lemma fl_mono:
  assumes "x \<le> y"
  shows "fl x \<le> fl y"
proof (cases "0 \<le> x")
  case True
  then show ?thesis using assms by (rule fl_mono_nonneg)
next
  case False
  show ?thesis
  proof (cases "0 \<le> y")
    case True
    have "0 \<le> fl (- x)" using False by (intro fl_nonneg) simp
    then have "fl x \<le> 0" by (simp add: fl_minus)
    moreover have "0 \<le> fl y" using True by (rule fl_nonneg)
    ultimately show ?thesis by linarith
  next
    case False
    then have "fl (- y) \<le> fl (- x)"
      using assms by (intro fl_mono_nonneg) simp_all
    then show ?thesis by (simp add: fl_minus)
  qed
qed

lemma fl_error_le:
  assumes "0 \<le> x" and "x \<le> y" and "2 powi (- 1022) \<le> y"
  shows "\<bar>fl x - x\<bar> \<le> y * 2 powi (- 53)"
proof -
  let ?ux = "(2 :: real) powi (exponent x - 52)"
  have fx: "fl x = real_of_int (round_even (x / ?ux)) * ?ux"
    using assms(1) by (simp add: fl_def Let_def)
  have "\<bar>fl x - x\<bar> = \<bar>real_of_int (round_even (x / ?ux)) - x / ?ux\<bar> * ?ux"
    unfolding fx by (simp add: abs_mult [symmetric] left_diff_distrib abs_mult_pos)
  also have "\<dots> \<le> 1 / 2 * ?ux"
    by (intro mult_right_mono round_even_error) simp
  also have "\<dots> = 2 powi (exponent x - 53)"
    by (simp add: power_int_diff)
  also have "\<dots> \<le> 2 powi (exponent y - 53)"
    using exponent_mono [OF assms(1,2)] by (intro power_int_increasing) simp_all
  also have "\<dots> = 2 powi exponent y * 2 powi (- 53)"
    using power_int_add [of "2 :: real" "exponent y" "- 53"] by simp
  also have "\<dots> \<le> y * 2 powi (- 53)"
    using exponent_normal [OF assms(3)] by (intro mult_right_mono) simp_all
  finally show ?thesis .
qed

lemma fl_strict:
  assumes "0 \<le> x" and "2 powi (- 1022) \<le> y" and "x + y * 2 powi (- 52) < y"
  shows "fl x < fl y"
proof -
  have y: "0 < y" using assms(2) by (rule less_le_trans [rotated]) simp
  then have "0 \<le> y * 2 powi (- 52)" by simp
  then have xy: "x \<le> y" using assms(3) by linarith
  have "\<bar>fl x - x\<bar> \<le> y * 2 powi (- 53)"
    using assms(1) xy assms(2) by (rule fl_error_le)
  moreover have "\<bar>fl y - y\<bar> \<le> y * 2 powi (- 53)"
    using y assms(2) by (intro fl_error_le) simp_all
  moreover have "y * 2 powi (- 53) + y * 2 powi (- 53) = y * (2 :: real) powi (- 52)"
    by (simp add: power_int_minus)
  ultimately show ?thesis using assms(3) by linarith
qed


text \<open>The double nearest to a number whose binade is known.\<close>

lemma fl_at:
  assumes "2 powi k \<le> \<bar>x\<bar>" and "\<bar>x\<bar> < 2 powi (k + 1)" and "- 1022 \<le> k"
  shows "fl x = real_of_int (round_even (x / 2 powi (k - 52))) * 2 powi (k - 52)"
  using exponent_eqI [OF assms] by (simp add: fl_def Let_def)

lemmas fl_calc = round_even_def Let_def power_int_minus power_divide

subsection \<open>The metrics of one run\<close>

lemma compute_metrics_category:
  "compute_metrics w i = Inr m \<Longrightarrow>
   bmi_category m = classify_bmi (bmi m) \<and> suggestion m = provide_suggestions (bmi m)"
  by (auto simp add: compute_metrics_def split: sum.splits)

text \<open>The 1704433249978021 / 70368744177664 at the default inputs, rounding by rounding.\<close>

lemma fl_default_height: "fl (170 / 100) = 7656119366529843 / 2 ^ 52"
  by (subst fl_at [where k = 0]) (simp_all add: fl_calc)

lemma fl_default_square:
  "fl ((7656119366529843 / 2 ^ 52) ^ 2) = 3253850730775183 / 1125899906842624"
  by (subst fl_at [where k = 1]) (simp_all add: fl_calc)

lemma fl_default_bmi:
  "fl (70 / (3253850730775183 / 1125899906842624)) = 1704433249978021 / 70368744177664"
  by (subst fl_at [where k = 4]) (simp_all add: fl_calc)

lemma calculate_bmi_default:
  "calculate_bmi default_inputs = Inr (1704433249978021 / 70368744177664)"
proof -
  have "calculate_bmi default_inputs =
      float_truediv 70 (fl ((fl (170 / 100)) ^ 2))"
    by (simp add: calculate_bmi_def default_inputs_def)
  also have "\<dots> = float_truediv 70 (3253850730775183 / 1125899906842624)"
    by (simp only: fl_default_height fl_default_square)
  also have "\<dots> = Inr (fl (70 / (3253850730775183 / 1125899906842624)))"
    by (simp add: float_truediv_def)
  finally show ?thesis by (simp only: fl_default_bmi)
qed

lemma compute_metrics_default:
  "compute_metrics failing_write_world default_inputs =
     Inr \<lparr>calories_burned = 390, bmi = 1704433249978021 / 70368744177664,
          intensity = 1600 / 39, speed = 10,
          bmi_category = ''Normal'',
          suggestion = ''Maintain current routine. Keep up the good work!''\<rparr>"
proof -
  have c: "classify_bmi (1704433249978021 / 70368744177664) = ''Normal''"
    by (simp add: classify_bmi_def)
  have s: "provide_suggestions (1704433249978021 / 70368744177664) =
      ''Maintain current routine. Keep up the good work!''"
    by (simp add: provide_suggestions_def)
  have p: "predict_calories failing_write_world default_inputs = Inr 390"
    by (simp add: predict_calories_def input_data_def failing_write_world_def default_inputs_def)
  have n: "calculate_workout_intensity default_inputs = Inr (1600 / 39)"
    by (simp add: calculate_workout_intensity_def truediv_def default_inputs_def)
  have r: "calculate_running_speed default_inputs = Inr 10"
    by (simp add: calculate_running_speed_def truediv_def default_inputs_def)
  show ?thesis
    by (simp add: compute_metrics_def p calculate_bmi_default n r c s)
qed

subsection \<open>Body mass index\<close>

text \<open>
  C1. \<open>classify_bmi\<close> sorts every real \<open>bmi\<close> into one of four pairwise different
  categories by half-open bands: below 18.5 Underweight, from 18.5 and below 25 Normal,
  from 25 and below 30 Overweight, from 30 on Obese. Each of the boundaries 18.5, 25
  and 30 falls into the higher band.
\<close>

theorem classify_bmi_bands:
  "(b < 18.5 \<longrightarrow> classify_bmi b = ''Underweight'') \<and>
   (18.5 \<le> b \<and> b < 25 \<longrightarrow> classify_bmi b = ''Normal'') \<and>
   (25 \<le> b \<and> b < 30 \<longrightarrow> classify_bmi b = ''Overweight'') \<and>
   (30 \<le> b \<longrightarrow> classify_bmi b = ''Obese'') \<and>
   classify_bmi 18.5 = ''Normal'' \<and>
   classify_bmi 25 = ''Overweight'' \<and>
   classify_bmi 30 = ''Obese'' \<and>
   classify_bmi b \<in> {''Underweight'', ''Normal'', ''Overweight'', ''Obese''} \<and>
   distinct [''Underweight'', ''Normal'', ''Overweight'', ''Obese'']"
  by (simp add: classify_bmi_def)

theorem classify_bmi_bands_witness:
  "(17 :: real) < 18.5 \<and> classify_bmi 17 = ''Underweight'' \<and>
   (18.5 :: real) \<le> 22 \<and> (22 :: real) < 25 \<and> classify_bmi 22 = ''Normal'' \<and>
   (25 :: real) \<le> 27 \<and> (27 :: real) < 30 \<and> classify_bmi 27 = ''Overweight'' \<and>
   (30 :: real) \<le> 31 \<and> classify_bmi 31 = ''Obese''"
  using classify_bmi_bands [of 17] classify_bmi_bands [of 22]
    classify_bmi_bands [of 27] classify_bmi_bands [of 31]
  by simp










subsection \<open>Running speed\<close>

text \<open>
  C4. With a positive running time the derived speed is
  \<open>distance / (running_time / 60)\<close>, and no exception is raised; with a running time
  of zero it is 0, whatever the distance.
\<close>

theorem calculate_running_speed_cases:
  "(0 < running_time i \<longrightarrow>
      calculate_running_speed i =
        Inr (real_of_int (distance i) / (real_of_int (running_time i) / 60))) \<and>
   (running_time i = 0 \<longrightarrow> calculate_running_speed i = Inr 0)"
  by (simp add: calculate_running_speed_def truediv_def)

theorem calculate_running_speed_cases_witness:
  "0 < running_time default_inputs \<and>
   calculate_running_speed default_inputs = Inr 10 \<and>
   running_time (default_inputs\<lparr>running_time := 0\<rparr>) = 0 \<and>
   calculate_running_speed (default_inputs\<lparr>running_time := 0\<rparr>) = Inr 0"
  using calculate_running_speed_cases [of default_inputs]
    calculate_running_speed_cases [of "default_inputs\<lparr>running_time := 0\<rparr>"]
  by (simp add: default_inputs_def)

subsection \<open>Workout intensity\<close>

text \<open>
  C8. For an age of at most 100, and so for every input the widgets allow, the divisor
  \<open>220 - age\<close> is not zero and the workout intensity is
  \<open>heart_rate / (220 - age) * 100\<close>. The computation raises an exception exactly
  when the age is 220, and then it is \<open>ZeroDivisionError\<close>.
\<close>

theorem workout_intensity_defined:
  "(age i \<le> 100 \<longrightarrow>
      220 - age i \<noteq> 0 \<and>
      calculate_workout_intensity i =
        Inr (real_of_int (heart_rate i) / real_of_int (220 - age i) * 100)) \<and>
   (in_domain i \<longrightarrow> (\<exists>v. calculate_workout_intensity i = Inr v)) \<and>
   ((\<exists>e. calculate_workout_intensity i = Inl e) = (age i = 220)) \<and>
   (age i = 220 \<longrightarrow> calculate_workout_intensity i = Inl ZeroDivisionError)"
  by (auto simp add: calculate_workout_intensity_def truediv_def Let_def in_domain_def)

theorem workout_intensity_defined_witness:
  "age default_inputs \<le> 100 \<and> in_domain default_inputs \<and>
   calculate_workout_intensity default_inputs = Inr (1600 / 39) \<and>
   age (default_inputs\<lparr>age := 220\<rparr>) = 220 \<and>
   calculate_workout_intensity (default_inputs\<lparr>age := 220\<rparr>) = Inl ZeroDivisionError"
  using workout_intensity_defined [of default_inputs]
    workout_intensity_defined [of "default_inputs\<lparr>age := 220\<rparr>"]
  by (simp add: default_inputs_def in_domain_def)

text \<open>
  C10. The workout intensity is not capped at 100: age 100 and heart rate 200 are
  inside the widgets' ranges and give \<open>200 / 120 * 100\<close>, which is above 100.
\<close>

theorem workout_intensity_unclamped:
  "in_domain (default_inputs\<lparr>age := 100, heart_rate := 200\<rparr>) \<and>
   calculate_workout_intensity (default_inputs\<lparr>age := 100, heart_rate := 200\<rparr>) =
     Inr (200 / 120 * 100) \<and>
   (100 :: real) < 200 / 120 * 100 \<and>
   (\<exists>i v. in_domain i \<and> calculate_workout_intensity i = Inr v \<and> 100 < v)"
proof -
  let ?i = "default_inputs\<lparr>age := 100, heart_rate := 200\<rparr>"
  have d: "in_domain ?i"
    by (simp add: in_domain_def default_inputs_def)
  have v: "calculate_workout_intensity ?i = Inr (200 / 120 * 100)"
    by (simp add: calculate_workout_intensity_def truediv_def default_inputs_def)
  have g: "(100 :: real) < 200 / 120 * 100"
    by simp
  from d v g show ?thesis by blast
qed

subsection \<open>Suggestions\<close>

text \<open>
  C7. For every BMI the suggestion is the entry of the advice table at the category of
  the same BMI, and so the suggestion and the category of one run of the script agree.
  The table has four rows, its categories are pairwise different and so are its
  advisory strings; its categories are exactly the values \<open>classify_bmi\<close> takes and
  its strings exactly the values \<open>provide_suggestions\<close> takes.
\<close>

theorem suggestion_follows_category:
  "map_of suggestion_table (classify_bmi b) = Some (provide_suggestions b) \<and>
   (compute_metrics w i = Inr m \<longrightarrow>
      map_of suggestion_table (bmi_category m) = Some (suggestion m)) \<and>
   length suggestion_table = 4 \<and>
   distinct (map fst suggestion_table) \<and>
   distinct (map snd suggestion_table) \<and>
   set (map fst suggestion_table) = range classify_bmi \<and>
   set (map snd suggestion_table) = range provide_suggestions"
proof -
  have a: "map_of suggestion_table (classify_bmi x) = Some (provide_suggestions x)" for x
    by (simp add: suggestion_table_def classify_bmi_def provide_suggestions_def)
  have s: "compute_metrics w i = Inr m \<longrightarrow>
      map_of suggestion_table (bmi_category m) = Some (suggestion m)"
    using a compute_metrics_category by simp
  have l: "length suggestion_table = 4"
    by (simp add: suggestion_table_def)
  have d1: "distinct (map fst suggestion_table)"
    by (simp add: suggestion_table_def)
  have d2: "distinct (map snd suggestion_table)"
    by (simp add: suggestion_table_def)
  have c: "classify_bmi 17 = ''Underweight''" "classify_bmi 22 = ''Normal''"
    "classify_bmi 27 = ''Overweight''" "classify_bmi 31 = ''Obese''"
    by (simp_all add: classify_bmi_def)
  have r1: "set (map fst suggestion_table) = range classify_bmi"
  proof
    show "set (map fst suggestion_table) \<subseteq> range classify_bmi"
      using c [symmetric] by (auto simp add: suggestion_table_def)
    show "range classify_bmi \<subseteq> set (map fst suggestion_table)"
      by (auto simp add: suggestion_table_def classify_bmi_def)
  qed
  have p: "provide_suggestions 17 = ''Increase calorie intake and do strength training.''"
    "provide_suggestions 22 = ''Maintain current routine. Keep up the good work!''"
    "provide_suggestions 27 = ''Incorporate more cardio and balanced diet.''"
    "provide_suggestions 31 = ''Consult a healthcare provider for a tailored fitness plan.''"
    by (simp_all add: provide_suggestions_def)
  have r2: "set (map snd suggestion_table) = range provide_suggestions"
  proof
    show "set (map snd suggestion_table) \<subseteq> range provide_suggestions"
      using p [symmetric] by (auto simp add: suggestion_table_def)
    show "range provide_suggestions \<subseteq> set (map snd suggestion_table)"
      by (auto simp add: suggestion_table_def provide_suggestions_def)
  qed
  from a s l d1 d2 r1 r2 show ?thesis by blast
qed

theorem suggestion_follows_category_witness:
  "compute_metrics failing_write_world default_inputs =
     Inr \<lparr>calories_burned = 390, bmi = 1704433249978021 / 70368744177664,
          intensity = 1600 / 39, speed = 10,
          bmi_category = ''Normal'',
          suggestion = ''Maintain current routine. Keep up the good work!''\<rparr> \<and>
   map_of suggestion_table ''Normal'' =
     Some ''Maintain current routine. Keep up the good work!''"
  using suggestion_follows_category [of _ failing_write_world default_inputs
    "\<lparr>calories_burned = 390, bmi = 1704433249978021 / 70368744177664,
          intensity = 1600 / 39, speed = 10,
          bmi_category = ''Normal'',
          suggestion = ''Maintain current routine. Keep up the good work!''\<rparr>"]
    compute_metrics_default
  by simp

subsection \<open>The predictor's input\<close>

text \<open>
  C5. \<open>predict_calories\<close> hands the scaler, and through it the model, one row of
  exactly eight numbers in this order: age, gender code, height, weight, running time,
  running speed, distance, heart rate. The gender code is 0 for Female and 1 for Male.
\<close>

theorem predict_calories_input_vector:
  "predict_calories w i =
     (case calories_model_predict w (scaler_transform w
        [[age i, (if gender i = ''Female'' then 0 else 1), height i, weight i,
          running_time i, running_speed i, distance i, heart_rate i]]) of
        [] \<Rightarrow> Inl IndexError
      | c # _ \<Rightarrow> Inr c) \<and>
   length (input_data i) = 1 \<and>
   length (hd (input_data i)) = 8 \<and>
   hd (input_data i) ! 0 = age i \<and>
   (gender i = ''Female'' \<longrightarrow> hd (input_data i) ! 1 = 0) \<and>
   (gender i = ''Male'' \<longrightarrow> hd (input_data i) ! 1 = 1) \<and>
   hd (input_data i) ! 2 = height i \<and>
   hd (input_data i) ! 3 = weight i \<and>
   hd (input_data i) ! 4 = running_time i \<and>
   hd (input_data i) ! 5 = running_speed i \<and>
   hd (input_data i) ! 6 = distance i \<and>
   hd (input_data i) ! 7 = heart_rate i"
  by (simp add: predict_calories_def input_data_def)

theorem predict_calories_input_vector_witness:
  "gender default_inputs = ''Female'' \<and>
   hd (input_data default_inputs) ! 1 = 0 \<and>
   gender (default_inputs\<lparr>gender := ''Male''\<rparr>) = ''Male'' \<and>
   hd (input_data (default_inputs\<lparr>gender := ''Male''\<rparr>)) ! 1 = 1 \<and>
   predict_calories failing_write_world default_inputs = Inr 390 \<and>
   predict_calories failing_write_world (default_inputs\<lparr>gender := ''Male''\<rparr>) = Inr 391"
  using predict_calories_input_vector [of failing_write_world default_inputs]
    predict_calories_input_vector [of failing_write_world "default_inputs\<lparr>gender := ''Male''\<rparr>"]
  by (simp add: default_inputs_def failing_write_world_def)

subsection \<open>Goal progress\<close>



text \<open>
  In double arithmetic two neighbouring doubles can have the same progress: 100 and
  the next double above it, \<open>100 + 2\<^sup>-\<^sup>4\<^sup>6\<close>, against a calorie goal of 3, both give
  3333.3333333333335.
\<close>

lemma fl_hundred: "fl 100 = 100"
  by (subst fl_at [where k = 6]) (simp_all add: fl_calc)

lemma fl_hundred_next: "fl (100 + 1 / 2 ^ 46) = 100 + 1 / 2 ^ 46"
  by (subst fl_at [where k = 6]) (simp_all add: fl_calc)

lemma fl_third_of_hundred: "fl (100 / 3) = 4691249611844267 / 2 ^ 47"
  by (subst fl_at [where k = 5]) (simp_all add: fl_calc)

lemma fl_third_of_hundred_next: "fl ((100 + 1 / 2 ^ 46) / 3) = 4691249611844267 / 2 ^ 47"
  by (subst fl_at [where k = 5]) (simp_all add: fl_calc)

lemma fl_times_hundred:
  "fl (4691249611844267 / 2 ^ 47 * 100) = 7330077518506667 / 2199023255552"
  by (subst fl_at [where k = 11]) (simp_all add: fl_calc)

theorem progress_rounding_counterexample:
  "(100 :: real) < 100 + 1 / 2 ^ 46 \<and>
   fl 100 = 100 \<and>
   fl (100 + 1 / 2 ^ 46) = 100 + 1 / 2 ^ 46 \<and>
   0 < goal_calories (default_inputs\<lparr>goal_calories := 3\<rparr>) \<and>
   calories_progress_f64 100 (default_inputs\<lparr>goal_calories := 3\<rparr>) =
     Inr (7330077518506667 / 2199023255552) \<and>
   calories_progress_f64 (100 + 1 / 2 ^ 46) (default_inputs\<lparr>goal_calories := 3\<rparr>) =
     Inr (7330077518506667 / 2199023255552)"
proof -
  have a: "calories_progress_f64 100 (default_inputs\<lparr>goal_calories := 3\<rparr>) =
      Inr (fl (fl (100 / 3) * 100))"
    by (simp add: calories_progress_f64_def float_truediv_def)
  have b: "calories_progress_f64 (100 + 1 / 2 ^ 46) (default_inputs\<lparr>goal_calories := 3\<rparr>) =
      Inr (fl (fl ((100 + 1 / 2 ^ 46) / 3) * 100))"
    by (simp add: calories_progress_f64_def float_truediv_def)
  show ?thesis
    unfolding a b fl_third_of_hundred fl_third_of_hundred_next fl_times_hundred
      fl_hundred fl_hundred_next
    by simp
qed

text \<open>Progress in double arithmetic never decreases.\<close>

lemma calories_progress_f64_value:
  "0 < goal_calories i \<Longrightarrow>
   calories_progress_f64 a i = Inr (fl (fl (a / real_of_int (goal_calories i)) * 100))"
  by (simp add: calories_progress_f64_def float_truediv_def)

lemma steps_progress_f64_value:
  "0 < goal_steps i \<Longrightarrow>
   steps_progress_f64 i =
     Inr (fl (fl (real_of_int (steps_taken i) / real_of_int (goal_steps i)) * 100))"
  by (simp add: steps_progress_f64_def float_truediv_def)

lemma progress_f64_mono:
  assumes "0 < g" and "a1 \<le> a2"
  shows "fl (fl (a1 / g) * 100) \<le> fl (fl (a2 / g) * 100)"
proof -
  have "a1 / g \<le> a2 / g"
    using assms by (simp add: divide_right_mono)
  then have "fl (a1 / g) \<le> fl (a2 / g)"
    by (rule fl_mono)
  then have "fl (a1 / g) * 100 \<le> fl (a2 / g) * 100"
    by simp
  then show ?thesis
    by (rule fl_mono)
qed

text \<open>
  Step counts are integers up to 50000, far apart on the scale of one rounding: their
  progress in double arithmetic grows strictly.
\<close>

lemma steps_f64_strict:
  fixes g s1 s2 :: int
  assumes g: "0 < g" "g \<le> 50000" and s: "0 \<le> s1" "s1 < s2" "s2 \<le> 50000"
  shows "fl (fl (real_of_int s1 / real_of_int g) * 100)
       < fl (fl (real_of_int s2 / real_of_int g) * 100)"
proof -
  define r where "r = 1 / real_of_int g"
  define x1 where "x1 = real_of_int s1 / real_of_int g"
  define x2 where "x2 = real_of_int s2 / real_of_int g"
  define d where "d = x2 * 2 powi (- 53)"
  define q1 where "q1 = fl x1"
  define q2 where "q2 = fl x2"
  have gr: "0 < real_of_int g" "real_of_int g \<le> 50000"
    using g by simp_all
  have r: "1 / 50000 \<le> r"
    unfolding r_def using gr by (simp add: field_simps)
  have x1: "0 \<le> x1"
    unfolding x1_def using s(1) gr(1) by simp
  have "real_of_int s2 - real_of_int s1 \<ge> 1"
    using s(2) by linarith
  then have "(real_of_int s2 - real_of_int s1) / real_of_int g \<ge> 1 / real_of_int g"
    using gr(1) by (simp add: divide_right_mono)
  then have gap: "r \<le> x2 - x1"
    unfolding r_def x1_def x2_def by (simp add: diff_divide_distrib)
  have "real_of_int s2 / real_of_int g \<le> 50000 / real_of_int g"
    using s(3) gr(1) by (simp add: divide_right_mono)
  then have top: "x2 \<le> 50000 * r"
    unfolding r_def x2_def by simp
  have tiny: "(2 :: real) powi (- 1022) \<le> 1 / 100000"
    by (simp add: power_int_minus)
  have n2: "2 powi (- 1022) \<le> x2"
    using tiny r gap x1 by linarith
  have x12: "x1 \<le> x2"
    using gap r by linarith
  have e1: "\<bar>q1 - x1\<bar> \<le> d"
    unfolding q1_def d_def using x1 x12 n2 by (rule fl_error_le)
  have e2: "\<bar>q2 - x2\<bar> \<le> d"
    unfolding q2_def d_def using n2 x1 x12 by (intro fl_error_le) simp_all
  have "x2 * 2 powi (- 53) \<le> x2 * (1 / 1000000000000000)"
    using x1 x12 by (intro mult_left_mono) (simp_all add: power_int_minus)
  then have d: "d \<le> x2 / 1000000000000000"
    unfolding d_def by simp
  have q1: "0 \<le> q1"
    unfolding q1_def using x1 by (rule fl_nonneg)
  have a: "0 \<le> q1 * 100"
    using q1 by simp
  have b: "2 powi (- 1022) \<le> q2 * 100"
    using tiny r gap x1 e2 d by linarith
  have q2: "0 \<le> q2 * 100"
    using b by (rule order_trans [rotated]) simp
  have "q2 * 100 * 2 powi (- 52) \<le> q2 * 100 * (1 / 1000000000000000)"
    using q2 by (intro mult_left_mono) (simp_all add: power_int_minus)
  then have c: "q1 * 100 + q2 * 100 * 2 powi (- 52) < q2 * 100"
    using r gap top x1 e1 e2 d by linarith
  have "fl (q1 * 100) < fl (q2 * 100)"
    using a b c by (rule fl_strict)
  then show ?thesis
    by (simp only: q1_def q2_def x1_def x2_def)
qed

text \<open>
  C9, as the code has it. For a fixed positive goal the progress the code computes
  never decreases when the actual value grows: for the calories pair a larger value
  gives a progress at least as large (two doubles next to each other can give the same
  one), and for the steps pair, with step counts and goal inside the widgets' ranges, a
  strictly larger one.
\<close>

theorem progress_nondecreasing:
  "(0 < goal_calories i \<and> a1 < a2 \<longrightarrow>
      (\<exists>p1 p2. calories_progress_f64 a1 i = Inr p1 \<and>
         calories_progress_f64 a2 i = Inr p2 \<and> p1 \<le> p2)) \<and>
   (0 < goal_steps i \<and> goal_steps i \<le> 50000 \<and> 0 \<le> s1 \<and> s1 < s2 \<and> s2 \<le> 50000 \<longrightarrow>
      (\<exists>p1 p2. steps_progress_f64 (i\<lparr>steps_taken := s1\<rparr>) = Inr p1 \<and>
         steps_progress_f64 (i\<lparr>steps_taken := s2\<rparr>) = Inr p2 \<and> p1 < p2))"
proof (intro conjI impI)
  assume h: "0 < goal_calories i \<and> a1 < a2"
  then have g: "0 < real_of_int (goal_calories i)" by simp
  have "fl (fl (a1 / real_of_int (goal_calories i)) * 100)
      \<le> fl (fl (a2 / real_of_int (goal_calories i)) * 100)"
    using g h by (intro progress_f64_mono) simp_all
  then show "\<exists>p1 p2. calories_progress_f64 a1 i = Inr p1 \<and>
      calories_progress_f64 a2 i = Inr p2 \<and> p1 \<le> p2"
    using h by (simp add: calories_progress_f64_value)
next
  assume h: "0 < goal_steps i \<and> goal_steps i \<le> 50000 \<and> 0 \<le> s1 \<and> s1 < s2 \<and> s2 \<le> 50000"
  then have "fl (fl (real_of_int s1 / real_of_int (goal_steps i)) * 100)
      < fl (fl (real_of_int s2 / real_of_int (goal_steps i)) * 100)"
    by (intro steps_f64_strict) simp_all
  then show "\<exists>p1 p2. steps_progress_f64 (i\<lparr>steps_taken := s1\<rparr>) = Inr p1 \<and>
      steps_progress_f64 (i\<lparr>steps_taken := s2\<rparr>) = Inr p2 \<and> p1 < p2"
    using h by (simp add: steps_progress_f64_value)
qed

theorem progress_nondecreasing_witness:
  "0 < goal_calories default_inputs \<and> (100 :: real) < 200 \<and>
   (\<exists>p1 p2. calories_progress_f64 100 default_inputs = Inr p1 \<and>
      calories_progress_f64 200 default_inputs = Inr p2 \<and> p1 \<le> p2) \<and>
   0 < goal_steps default_inputs \<and> goal_steps default_inputs \<le> 50000 \<and>
   (0 :: int) \<le> 2000 \<and> (2000 :: int) < 3000 \<and> (3000 :: int) \<le> 50000 \<and>
   (\<exists>p1 p2. steps_progress_f64 (default_inputs\<lparr>steps_taken := 2000\<rparr>) = Inr p1 \<and>
      steps_progress_f64 (default_inputs\<lparr>steps_taken := 3000\<rparr>) = Inr p2 \<and> p1 < p2)"
  using progress_nondecreasing [of default_inputs 100 200 2000 3000]
  by (simp add: default_inputs_def)

subsection \<open>The report\<close>

lemma calories_progress_total:
  "\<exists>p. calories_progress c i = Inr p"
  by (simp add: calories_progress_def truediv_def)

lemma steps_progress_total:
  "\<exists>p. steps_progress i = Inr p"
  by (simp add: steps_progress_def truediv_def)

lemma compute_metrics_report_clicked:
  "compute_metrics (w\<lparr>report_clicked := c\<rparr>) i = compute_metrics w i"
  by (simp add: compute_metrics_def predict_calories_def)

lemma data_analysis_report_clicked:
  "data_analysis (w\<lparr>report_clicked := c\<rparr>) = data_analysis w"
  by (simp add: data_analysis_def)

lemma compare_with_dataset_report_clicked:
  "compare_with_dataset (w\<lparr>report_clicked := c\<rparr>) i m = compare_with_dataset w i m"
  by (simp add: compare_with_dataset_def)

text \<open>The run up to the report block, when the metrics are computed.\<close>

lemma app_after_metrics:
  assumes "compute_metrics w i = Inr m"
    and "calories_progress (calories_burned m) i = Inr cp"
    and "steps_progress i = Inr sp"
  shows "app w i =
    generate_pdf_report w i m
      (Title ''SMARTFIT AI - Personal Fitness Tracker'' # show_metrics m @
       show_progress cp sp @ data_analysis w @
       (if compare_clicked w then compare_with_dataset w i m else []))"
  using assms by (simp add: app_def)

lemma app_metrics_failure:
  "compute_metrics w i = Inl e \<Longrightarrow>
   app w i =
     \<lparr>events = [Title ''SMARTFIT AI - Personal Fitness Tracker'', Exception_shown e],
      report_file = None, raised = Some e\<rparr>"
  by (simp add: app_def uncaught_def)

text \<open>
  C6. When the report is requested and \<open>pdf.output\<close> raises, the failure is reported:
  the exception ends the run and is displayed as the last element of the page. It
  takes nothing away: above it stands everything a run without the request shows, so
  every metric line and both progress lines. No report file and no success message
  come out of it. A failure in the metric computation is reported differently: its
  exception stands directly below the title, so the page of a write failure is never
  the page of a metric failure.
\<close>

theorem report_write_failure_reported:
  "(report_clicked w \<and> pdf_output w = Some e \<and> compute_metrics w i = Inr m \<longrightarrow>
      raised (app w i) = Some e \<and>
      report_file (app w i) = None \<and>
      events (app w i) =
        events (app (w\<lparr>report_clicked := False\<rparr>) i) @ [Exception_shown e] \<and>
      raised (app (w\<lparr>report_clicked := False\<rparr>) i) = None \<and>
      set (show_metrics m) \<subseteq> set (events (app w i)) \<and>
      (\<exists>cp sp. calories_progress (calories_burned m) i = Inr cp \<and>
         steps_progress i = Inr sp \<and>
         set (show_progress cp sp) \<subseteq> set (events (app w i))) \<and>
      (\<forall>w2 i2 e2. compute_metrics w2 i2 = Inl e2 \<longrightarrow>
         events (app w2 i2) \<noteq> events (app w i))) \<and>
   (compute_metrics w i = Inl e' \<longrightarrow>
      raised (app w i) = Some e' \<and>
      events (app w i) =
        [Title ''SMARTFIT AI - Personal Fitness Tracker'', Exception_shown e'])"
proof (intro conjI impI allI)
  assume "compute_metrics w i = Inl e'"
  then have a: "app w i =
      \<lparr>events = [Title ''SMARTFIT AI - Personal Fitness Tracker'', Exception_shown e'],
       report_file = None, raised = Some e'\<rparr>"
    by (rule app_metrics_failure)
  show "raised (app w i) = Some e'" by (simp add: a)
  show "events (app w i) =
      [Title ''SMARTFIT AI - Personal Fitness Tracker'', Exception_shown e']"
    by (simp add: a)
next
  assume h: "report_clicked w \<and> pdf_output w = Some e \<and> compute_metrics w i = Inr m"
  obtain cp where cp: "calories_progress (calories_burned m) i = Inr cp"
    using calories_progress_total by blast
  obtain sp where sp: "steps_progress i = Inr sp"
    using steps_progress_total by blast
  let ?shown = "Title ''SMARTFIT AI - Personal Fitness Tracker'' # show_metrics m @
       show_progress cp sp @ data_analysis w @
       (if compare_clicked w then compare_with_dataset w i m else [])"
  have a: "app w i =
      \<lparr>events = ?shown @ [Exception_shown e], report_file = None, raised = Some e\<rparr>"
    using h cp sp by (simp add: app_after_metrics generate_pdf_report_def uncaught_def)
  have m': "compute_metrics (w\<lparr>report_clicked := False\<rparr>) i = Inr m"
    using h by (simp add: compute_metrics_report_clicked)
  have b: "app (w\<lparr>report_clicked := False\<rparr>) i =
      \<lparr>events = ?shown, report_file = None, raised = None\<rparr>"
    using cp sp
    by (simp add: app_after_metrics [OF m'] generate_pdf_report_def
        data_analysis_report_clicked compare_with_dataset_report_clicked)
  show "raised (app w i) = Some e" by (simp add: a)
  show "report_file (app w i) = None" by (simp add: a)
  show "events (app w i) =
      events (app (w\<lparr>report_clicked := False\<rparr>) i) @ [Exception_shown e]"
    by (simp add: a b)
  show "raised (app (w\<lparr>report_clicked := False\<rparr>) i) = None" by (simp add: b)
  show "set (show_metrics m) \<subseteq> set (events (app w i))"
    by (auto simp add: a)
  have "set (show_progress cp sp) \<subseteq> set (events (app w i))"
    by (auto simp add: a)
  with cp sp show "\<exists>cp sp. calories_progress (calories_burned m) i = Inr cp \<and>
         steps_progress i = Inr sp \<and>
         set (show_progress cp sp) \<subseteq> set (events (app w i))"
    by blast
  have long: "2 < length (events (app w i))"
    by (simp add: a show_metrics_def)
  fix w2 i2 e2
  assume "compute_metrics w2 i2 = Inl e2"
  then have "length (events (app w2 i2)) = 2"
    by (simp add: app_metrics_failure)
  with long show "events (app w2 i2) \<noteq> events (app w i)"
    by auto
qed

theorem report_write_failure_reported_witness:
  "report_clicked failing_write_world \<and>
   pdf_output failing_write_world = Some OSError \<and>
   raised (app failing_write_world default_inputs) = Some OSError \<and>
   report_file (app failing_write_world default_inputs) = None \<and>
   Exception_shown OSError \<in> set (events (app failing_write_world default_inputs)) \<and>
   Write [Text ''**Running Speed:** '', Fixed2 10, Text '' km/h''] \<in>
     set (events (app failing_write_world default_inputs)) \<and>
   compute_metrics failing_write_world (default_inputs\<lparr>age := 220\<rparr>) = Inl ZeroDivisionError \<and>
   raised (app failing_write_world (default_inputs\<lparr>age := 220\<rparr>)) = Some ZeroDivisionError \<and>
   events (app failing_write_world (default_inputs\<lparr>age := 220\<rparr>)) =
     [Title ''SMARTFIT AI - Personal Fitness Tracker'', Exception_shown ZeroDivisionError] \<and>
   events (app failing_write_world (default_inputs\<lparr>age := 220\<rparr>)) \<noteq>
     events (app failing_write_world default_inputs)"
proof -
  let ?m = "\<lparr>calories_burned = 390, bmi = 1704433249978021 / 70368744177664,
          intensity = 1600 / 39, speed = 10,
          bmi_category = ''Normal'',
          suggestion = ''Maintain current routine. Keep up the good work!''\<rparr>"
  have w: "report_clicked failing_write_world" "pdf_output failing_write_world = Some OSError"
    by (simp_all add: failing_write_world_def)
  have b: "calculate_bmi (default_inputs\<lparr>age := 220\<rparr>) = calculate_bmi default_inputs"
    by (simp add: calculate_bmi_def)
  have f: "compute_metrics failing_write_world (default_inputs\<lparr>age := 220\<rparr>) =
      Inl ZeroDivisionError"
    by (simp add: compute_metrics_def predict_calories_def input_data_def b
      calculate_bmi_default calculate_workout_intensity_def truediv_def
      failing_write_world_def)
  have s: "Write [Text ''**Running Speed:** '', Fixed2 10, Text '' km/h''] \<in> set (show_metrics ?m)"
    by (simp add: show_metrics_def)
  from report_write_failure_reported
    [of failing_write_world OSError default_inputs ?m ZeroDivisionError]
    report_write_failure_reported
    [of failing_write_world OSError "default_inputs\<lparr>age := 220\<rparr>" ?m ZeroDivisionError]
    w f s compute_metrics_default
  show ?thesis by auto
qed

end
